theory Spec2Isabelle
  imports Main "HOL-Library.AList"
begin

section \<open>JavaScript values held by database cells\<close>

text \<open>
  A cell's \<open>value\<close> has the TypeScript type \<open>unknown\<close>. The model covers the shapes the
  source's casts name (\<open>string[]\<close>, \<open>number\<close>, \<open>SelectTag[]\<close>), the falsy primitives that
  its guards test for, and the \<open>Y.Text\<close> that the rich-text conversion creates.

  A \<open>SelectTag\<close> is a plain object with a string \<open>value\<close> property. Objects are compared
  by identity in JavaScript (\<open>===\<close>, \<open>indexOf\<close>), so a tag carries the identity of its
  object as \<open>ref\<close>: two tags with different \<open>ref\<close> are different objects even when their
  \<open>value\<close> strings agree. Numbers are integers or \<open>NaN\<close>; of a number the source only
  tests whether it is falsy and converts it to a string.
\<close>

datatype error = TypeError | AssertionError

datatype SelectTag = SelectTag (ref: nat) (tag_value: string)

datatype jsval =
    JUndefined
  | JNull
  | JBool bool
  | JNum int
  | JNaN
  | JStr string
  | JTag SelectTag
  | JArr "jsval list"
  | YText string

text \<open>\<open>!value\<close>: the falsy values are undefined, null, false, 0, NaN and the empty string.\<close>

fun truthy :: "jsval \<Rightarrow> bool" where
  "truthy JUndefined = False"
| "truthy JNull = False"
| "truthy (JBool b) = b"
| "truthy (JNum n) = (n \<noteq> 0)"
| "truthy JNaN = False"
| "truthy (JStr s) = (s \<noteq> [])"
| "truthy (JTag t) = True"
| "truthy (JArr xs) = True"
| "truthy (YText s) = True"

text \<open>
  \<open>value[0]\<close>: reading property 0 of undefined or null throws; an array gives its first
  element and a string its first character, and each gives undefined when it is empty;
  every other value has no property 0.
\<close>

fun index0 :: "jsval \<Rightarrow> error + jsval" where
  "index0 JUndefined = Inl TypeError"
| "index0 JNull = Inl TypeError"
| "index0 (JArr xs) = Inr (case xs of [] \<Rightarrow> JUndefined | x # _ \<Rightarrow> x)"
| "index0 (JStr s) = Inr (case s of [] \<Rightarrow> JUndefined | c # _ \<Rightarrow> JStr [c])"
| "index0 (JBool b) = Inr JUndefined"
| "index0 (JNum n) = Inr JUndefined"
| "index0 JNaN = Inr JUndefined"
| "index0 (JTag t) = Inr JUndefined"
| "index0 (YText s) = Inr JUndefined"

text \<open>\<open>item.value\<close>: throws on undefined and null; only a tag object has the property.\<close>

fun value_property :: "jsval \<Rightarrow> error + jsval" where
  "value_property JUndefined = Inl TypeError"
| "value_property JNull = Inl TypeError"
| "value_property (JTag t) = Inr (JStr (tag_value t))"
| "value_property (JBool b) = Inr JUndefined"
| "value_property (JNum n) = Inr JUndefined"
| "value_property JNaN = Inr JUndefined"
| "value_property (JStr s) = Inr JUndefined"
| "value_property (JArr xs) = Inr JUndefined"
| "value_property (YText s) = Inr JUndefined"

text \<open>\<open>[...selected]\<close>: only arrays and strings are iterable among the modelled values.\<close>

fun spread :: "jsval \<Rightarrow> error + jsval list" where
  "spread (JArr xs) = Inr xs"
| "spread (JStr s) = Inr (map (\<lambda>c. JStr [c]) s)"
| "spread JUndefined = Inl TypeError"
| "spread JNull = Inl TypeError"
| "spread (JBool b) = Inl TypeError"
| "spread (JNum n) = Inl TypeError"
| "spread JNaN = Inl TypeError"
| "spread (JTag t) = Inl TypeError"
| "spread (YText s) = Inl TypeError"

text \<open>
  \<open>newSelected.indexOf(oldValue)\<close> compares with \<open>===\<close>. \<open>oldValue\<close> is an object, so an
  element equals it only when it is that very object. The result is -1 when no element
  does.
\<close>

fun strict_equals_tag :: "jsval \<Rightarrow> SelectTag \<Rightarrow> bool" where
  "strict_equals_tag (JTag t) old = (ref t = ref old)"
| "strict_equals_tag JUndefined old = False"
| "strict_equals_tag JNull old = False"
| "strict_equals_tag (JBool b) old = False"
| "strict_equals_tag (JNum n) old = False"
| "strict_equals_tag JNaN old = False"
| "strict_equals_tag (JStr s) old = False"
| "strict_equals_tag (JArr xs) old = False"
| "strict_equals_tag (YText s) old = False"

fun indexOf :: "jsval list \<Rightarrow> SelectTag \<Rightarrow> int" where
  "indexOf [] old = - 1"
| "indexOf (x # xs) old =
     (if strict_equals_tag x old then 0
      else (let i = indexOf xs old in if i < 0 then - 1 else i + 1))"

text \<open>
  \<open>newSelected[index] = newValue\<close>. Inside the array the element is replaced. With a
  negative index the assignment creates a property named by the index, which is no element:
  the length and the elements stay as they were. Past the end the array grows, the gap
  filled with holes that read as undefined.
\<close>

definition array_assign :: "jsval list \<Rightarrow> int \<Rightarrow> jsval \<Rightarrow> jsval list" where
  "array_assign xs i v =
     (if i < 0 then xs
      else if nat i < length xs then xs[nat i := v]
      else xs @ replicate (nat i - length xs) JUndefined @ [v])"

text \<open>
  \<open>selected.filter(item => item.value !== target.value)\<close>: the callback throws on an
  undefined or null item; \<open>target.value\<close> is a string, and \<open>item.value\<close> is a string or
  undefined, so \<open>!==\<close> compares primitives.
\<close>

fun filter_items :: "SelectTag \<Rightarrow> jsval list \<Rightarrow> error + jsval list" where
  "filter_items target [] = Inr []"
| "filter_items target (item # items) =
     (case value_property item of
        Inl e \<Rightarrow> Inl e
      | Inr v \<Rightarrow>
          (case filter_items target items of
             Inl e \<Rightarrow> Inl e
           | Inr rest \<Rightarrow> Inr (if v \<noteq> JStr (tag_value target) then item # rest else rest)))"

text \<open>String conversion, \<open>value + ''\<close>.\<close>

fun digits :: "nat \<Rightarrow> string" where
  "digits n =
     (if n < 10 then [''0123456789'' ! n]
      else digits (n div 10) @ [''0123456789'' ! (n mod 10)])"

declare digits.simps [simp del]

fun join_comma :: "string list \<Rightarrow> string" where
  "join_comma [] = []"
| "join_comma [s] = s"
| "join_comma (s # t # ss) = s @ '','' @ join_comma (t # ss)"

fun toString :: "jsval \<Rightarrow> string" where
  "toString JUndefined = ''undefined''"
| "toString JNull = ''null''"
| "toString (JBool b) = (if b then ''true'' else ''false'')"
| "toString (JNum n) = (if n < 0 then ''-'' @ digits (nat (- n)) else digits (nat n))"
| "toString JNaN = ''NaN''"
| "toString (JStr s) = s"
| "toString (JTag t) = ''[object Object]''"
| "toString (JArr xs) =
     join_comma (map (\<lambda>x. if x = JUndefined \<or> x = JNull then [] else toString x) xs)"
| "toString (YText s) = s"

section \<open>The database block model\<close>

text \<open>
  A \<open>Y.Map\<close> is an association list in the order \<open>forEach\<close> visits it: \<open>get\<close> is
  \<open>map_of\<close>, \<open>has\<close> asks whether \<open>map_of\<close> finds the key, \<open>set\<close> is \<open>AList.update\<close> (an
  existing key keeps its place, a new one goes to the end) and \<open>delete\<close> is
  \<open>AList.delete\<close>.

  A stored cell is a \<open>Y.Map\<close> with the two keys \<open>columnId\<close> and \<open>value\<close>; every write of
  the source creates it with both, so it is the record \<open>Cell\<close>. \<open>yCells\<close> maps a row id to
  the row's map from column ids to cells.
\<close>

record Cell =
  columnId :: string
  "value" :: jsval

type_synonym YRow = "(string \<times> Cell) list"

type_synonym YCells = "(string \<times> YRow) list"

record YEvent =
  path :: "string list"

text \<open>
  A block model has an id and, when it holds text, the string its \<open>Text\<close> converts to.
  The state of a database block adds its child blocks (the rows), the two shared maps,
  and \<open>propsUpdated\<close>, the log of the signal of that name: one entry per emission,
  holding the cell table that a subscriber reads when the signal fires.
\<close>

record BaseBlockModel =
  id' :: string
  "text" :: "string option"

record 'col DatabaseBlockModel = BaseBlockModel +
  children :: "BaseBlockModel list"
  yColumns :: "(string \<times> 'col) list"
  yCells :: YCells
  propsUpdated :: "YCells list"

text \<open>The handler that \<open>onCreated\<close> subscribes to \<open>page.slots.onYEvent\<close>.\<close>

definition onYEvent :: "YEvent \<Rightarrow> 'col DatabaseBlockModel \<Rightarrow> 'col DatabaseBlockModel" where
  "onYEvent event m =
     (if id' m \<in> set (path event) \<and>
         (''prop:yColumns'' \<in> set (path event) \<or> ''prop:yCells'' \<in> set (path event))
      then m\<lparr>propsUpdated := propsUpdated m @ [yCells m]\<rparr>
      else m)"

text \<open>
  Modelled from the spec: \<open>page.transact\<close> and the change-event stream of the store
  package, whose code is not among the source files. The spec: \<open>transact(fn)\<close> runs \<open>fn\<close>
  atomically and all mutations inside are one unit for change-event purposes; subscribers
  observe the state before or after a transaction, never one in between; a mutation runs
  to completion or fails atomically; an event's path holds the block id and the name of
  the mutated property. The body is the callback of the source: it returns the cell table
  it has reached and the error it threw, if any.
\<close>

definition transact ::
  "(YCells \<Rightarrow> YCells \<times> error option) \<Rightarrow> 'col DatabaseBlockModel \<Rightarrow>
   'col DatabaseBlockModel \<times> error option" where
  "transact fn m =
     (case fn (yCells m) of
        (cells, Some e) \<Rightarrow> (m, Some e)
      | (cells, None) \<Rightarrow>
          (onYEvent \<lparr>path = [id' m, ''prop:yCells'']\<rparr> (m\<lparr>yCells := cells\<rparr>), None))"

text \<open>
  \<open>yCells.forEach(callback)\<close>. A callback of the source writes to its row as its last
  statement, so a callback that throws leaves its row as it was; the rows visited before
  it keep what was written to them and the exception ends the loop.
\<close>

fun forEach :: "(YRow \<Rightarrow> error + YRow) \<Rightarrow> YCells \<Rightarrow> YCells \<times> error option" where
  "forEach callback [] = ([], None)"
| "forEach callback ((rowId, yRow) # rows) =
     (case callback yRow of
        Inl e \<Rightarrow> ((rowId, yRow) # rows, Some e)
      | Inr yRow' \<Rightarrow>
          (case forEach callback rows of
             (rows', r) \<Rightarrow> ((rowId, yRow') # rows', r)))"

subsection \<open>Lookups\<close>

definition getColumn :: "'col DatabaseBlockModel \<Rightarrow> string \<Rightarrow> 'col option" where
  "getColumn m colId = map_of (yColumns m) colId"

definition getCell :: "'col DatabaseBlockModel \<Rightarrow> string \<Rightarrow> string \<Rightarrow> Cell option" where
  "getCell m rowId colId =
     (case map_of (yCells m) rowId of
        None \<Rightarrow> None
      | Some yRow \<Rightarrow>
          (case map_of yRow colId of
             None \<Rightarrow> None
           | Some yCell \<Rightarrow> Some \<lparr>columnId = columnId yCell, value = value yCell\<rparr>))"

subsection \<open>Writes\<close>

definition updateCell ::
  "string \<Rightarrow> Cell \<Rightarrow> 'col DatabaseBlockModel \<Rightarrow> 'col DatabaseBlockModel \<times> error option" where
  "updateCell rowId cell m =
     (let hasRow = (map_of (yCells m) rowId \<noteq> None);
          yRow = (case map_of (yCells m) rowId of None \<Rightarrow> [] | Some r \<Rightarrow> r)
      in transact
           (\<lambda>cells.
              (let cells1 = (if \<not> hasRow then AList.update rowId yRow cells else cells);
                   yCell = \<lparr>columnId = columnId cell, value = value cell\<rparr>
               in (AList.update rowId (AList.update (columnId cell) yCell yRow) cells1, None)))
           m)"

definition copy_callback :: "string \<Rightarrow> string \<Rightarrow> YRow \<Rightarrow> error + YRow" where
  "copy_callback fromId toId yRow =
     (case map_of yRow fromId of
        None \<Rightarrow> Inr yRow
      | Some yCell \<Rightarrow> Inr (AList.update toId \<lparr>columnId = toId, value = value yCell\<rparr> yRow))"

definition copyCellsByColumn ::
  "string \<Rightarrow> string \<Rightarrow> 'col DatabaseBlockModel \<Rightarrow> 'col DatabaseBlockModel \<times> error option" where
  "copyCellsByColumn fromId toId m = transact (forEach (copy_callback fromId toId)) m"

definition delete_callback :: "string \<Rightarrow> YRow \<Rightarrow> error + YRow" where
  "delete_callback colId yRow = Inr (AList.delete colId yRow)"

definition deleteCellsByColumn ::
  "string \<Rightarrow> 'col DatabaseBlockModel \<Rightarrow> 'col DatabaseBlockModel \<times> error option" where
  "deleteCellsByColumn colId m = transact (forEach (delete_callback colId)) m"

datatype newType = Select | RichText

definition convert_callback :: "string \<Rightarrow> newType \<Rightarrow> YRow \<Rightarrow> error + YRow" where
  "convert_callback colId newType yRow =
     (case map_of yRow colId of
        None \<Rightarrow> Inr yRow
      | Some yCell \<Rightarrow>
          (case newType of
             Select \<Rightarrow>
               (if \<not> truthy (value yCell) then Inr yRow
                else (case index0 (value yCell) of
                        Inl e \<Rightarrow> Inl e
                      | Inr first \<Rightarrow>
                          Inr (AList.update colId \<lparr>columnId = colId, value = JArr [first]\<rparr> yRow)))
           | RichText \<Rightarrow>
               (if \<not> truthy (value yCell) then Inr yRow
                else Inr (AList.update colId
                            \<lparr>columnId = colId, value = YText (toString (value yCell))\<rparr> yRow))))"

definition convertCellsByColumn ::
  "string \<Rightarrow> newType \<Rightarrow> 'col DatabaseBlockModel \<Rightarrow> 'col DatabaseBlockModel \<times> error option" where
  "convertCellsByColumn colId newType m = transact (forEach (convert_callback colId newType)) m"

definition rename_callback :: "string \<Rightarrow> SelectTag \<Rightarrow> SelectTag \<Rightarrow> YRow \<Rightarrow> error + YRow" where
  "rename_callback colId oldValue newValue yRow =
     (case map_of yRow colId of
        None \<Rightarrow> Inr yRow
      | Some yCell \<Rightarrow>
          (case spread (value yCell) of
             Inl e \<Rightarrow> Inl e
           | Inr newSelected \<Rightarrow>
               (let index = indexOf newSelected oldValue;
                    newSelected' = array_assign newSelected index (JTag newValue)
                in Inr (AList.update colId \<lparr>columnId = colId, value = JArr newSelected'\<rparr> yRow))))"

definition renameSelectedCellTag ::
  "string \<Rightarrow> SelectTag \<Rightarrow> SelectTag \<Rightarrow> 'col DatabaseBlockModel \<Rightarrow>
   'col DatabaseBlockModel \<times> error option" where
  "renameSelectedCellTag colId oldValue newValue m =
     transact (forEach (rename_callback colId oldValue newValue)) m"

text \<open>
  In \<open>deleteSelectedCellTag\<close> the spread comes first and throws on a value that is not
  iterable; \<open>filter\<close> is then called on \<open>selected\<close> itself, and only an array has it.
\<close>

definition deleteTag_callback :: "string \<Rightarrow> SelectTag \<Rightarrow> YRow \<Rightarrow> error + YRow" where
  "deleteTag_callback colId target yRow =
     (case map_of yRow colId of
        None \<Rightarrow> Inr yRow
      | Some yCell \<Rightarrow>
          (case spread (value yCell) of
             Inl e \<Rightarrow> Inl e
           | Inr copied \<Rightarrow>
               (case value yCell of
                  JArr selected \<Rightarrow>
                    (case filter_items target selected of
                       Inl e \<Rightarrow> Inl e
                     | Inr newSelected \<Rightarrow>
                         Inr (AList.update colId
                                \<lparr>columnId = colId, value = JArr newSelected\<rparr> yRow))
                | _ \<Rightarrow> Inl TypeError)))"

definition deleteSelectedCellTag ::
  "string \<Rightarrow> SelectTag \<Rightarrow> 'col DatabaseBlockModel \<Rightarrow> 'col DatabaseBlockModel \<times> error option" where
  "deleteSelectedCellTag colId target m = transact (forEach (deleteTag_callback colId target)) m"

text \<open>
  The invariant of the cell table: every stored cell carries the column id it is stored
  under.
\<close>

definition cells_consistent :: "YCells \<Rightarrow> bool" where
  "cells_consistent cells =
     list_all (\<lambda>(rowId, yRow). list_all (\<lambda>(key, yCell). columnId yCell = key) yRow) cells"

text \<open>
  What one notification cycle of a bulk operation leaves behind: \<open>propsUpdated\<close> has
  fired exactly once more, what it showed is the cell table of the state reached, and in
  that table every row is the row the callback of the operation has made of it.
\<close>

definition one_consolidated_event ::
  "(YRow \<Rightarrow> error + YRow) \<Rightarrow> 'col DatabaseBlockModel \<Rightarrow> 'col DatabaseBlockModel \<Rightarrow> bool" where
  "one_consolidated_event callback m m' =
     (propsUpdated m' = propsUpdated m @ [yCells m'] \<and>
      list_all2 (\<lambda>(rowId, yRow) (rowId', yRow'). rowId' = rowId \<and> callback yRow = Inr yRow')
        (yCells m) (yCells m'))"

section \<open>The search of the database toolbar\<close>

text \<open>
  Modelled from the spec: the enumeration \<open>SearchState\<close> of \<open>types.js\<close>, which is not
  among the source files. The spec names its four modes.
\<close>

datatype SearchState = SearchIcon | SearchInput | Searching | Action

text \<open>
  The toolbar reports through the callbacks \<open>setSearchState\<close> and \<open>setFilteredRowIds\<close>
  that its parent supplies. A handler is modelled by the calls it makes, in order, and the
  error it throws, if any.
\<close>

datatype toolbar_call = SetSearchState SearchState | SetFilteredRowIds "string list"

text \<open>
  Strings are lists of ASCII characters here: \<open>trim\<close> strips the ASCII white space and
  \<open>toLocaleLowerCase\<close> maps the letters A to Z.
\<close>

definition is_space :: "char \<Rightarrow> bool" where
  "is_space c = (c \<in> set [CHR '' '', CHR 0x09, CHR 0x0A, CHR 0x0B, CHR 0x0C, CHR 0x0D])"

definition trim :: "string \<Rightarrow> string" where
  "trim s = rev (dropWhile is_space (rev (dropWhile is_space s)))"

definition toLocaleLowerCase :: "string \<Rightarrow> string" where
  "toLocaleLowerCase s =
     map (\<lambda>c. let n = (of_char c :: nat) in if 65 \<le> n \<and> n \<le> 90 then char_of (n + 32) else c) s"

fun starts_with :: "string \<Rightarrow> string \<Rightarrow> bool" where
  "starts_with s [] = True"
| "starts_with [] (c # q) = False"
| "starts_with (d # s) (c # q) = (d = c \<and> starts_with s q)"

text \<open>\<open>s.includes(q)\<close>: \<open>q\<close> occurs in \<open>s\<close> as a substring.\<close>

fun js_includes :: "string \<Rightarrow> string \<Rightarrow> bool" where
  "js_includes [] q = (q = [])"
| "js_includes (d # s) q = (starts_with (d # s) q \<or> js_includes s q)"

text \<open>
  \<open>serializedCells\<close> is \<open>yCells.toJSON()\<close>: a shared type that is the value of an entry
  is replaced by its JSON, here a \<open>Y.Text\<close> by its string; every other value is returned
  as it is.
\<close>

fun toJSON :: "jsval \<Rightarrow> jsval" where
  "toJSON (YText s) = JStr s"
| "toJSON JUndefined = JUndefined"
| "toJSON JNull = JNull"
| "toJSON (JBool b) = JBool b"
| "toJSON (JNum n) = JNum n"
| "toJSON JNaN = JNaN"
| "toJSON (JStr s) = JStr s"
| "toJSON (JTag t) = JTag t"
| "toJSON (JArr xs) = JArr xs"

definition serializedCells :: "'col DatabaseBlockModel \<Rightarrow> YCells" where
  "serializedCells m =
     map (\<lambda>(rowId, yRow).
            (rowId, map (\<lambda>(key, yCell). (key, yCell\<lparr>value := toJSON (value yCell)\<rparr>)) yRow))
         (yCells m)"

text \<open>\<open>value.map(item => item.value)\<close>.\<close>

fun map_value_property :: "jsval list \<Rightarrow> error + jsval list" where
  "map_value_property [] = Inr []"
| "map_value_property (item # items) =
     (case value_property item of
        Inl e \<Rightarrow> Inl e
      | Inr v \<Rightarrow>
          (case map_value_property items of
             Inl e \<Rightarrow> Inl e
           | Inr vs \<Rightarrow> Inr (v # vs)))"

text \<open>
  The values of one row, flattened: \<open>Object.keys(columnMap).map(...)\<close> followed by
  \<open>flat()\<close>. The keys are taken in the order of the row's entries.
\<close>

fun columnValues :: "YRow \<Rightarrow> error + jsval list" where
  "columnValues [] = Inr []"
| "columnValues ((key, cell) # columnMap) =
     (case (case value cell of
              JArr items \<Rightarrow> map_value_property items
            | v \<Rightarrow> Inr [JStr (toString v)]) of
        Inl e \<Rightarrow> Inl e
      | Inr vs \<Rightarrow>
          (case columnValues columnMap of
             Inl e \<Rightarrow> Inl e
           | Inr ws \<Rightarrow> Inr (vs @ ws)))"

type_synonym DatabaseMap = "(string \<times> jsval list) list"

text \<open>
  The second loop of the getter \<open>_databaseMap\<close>: \<open>rowIds.forEach\<close>, which pushes the
  values of a row's cells behind the row's text.
\<close>

fun push_rows :: "YCells \<Rightarrow> string list \<Rightarrow> DatabaseMap \<Rightarrow> error + DatabaseMap" where
  "push_rows cells [] dm = Inr dm"
| "push_rows cells (rowId # rowIds) dm =
     (case map_of cells rowId of
        None \<Rightarrow> push_rows cells rowIds dm
      | Some columnMap \<Rightarrow>
          (case columnValues columnMap of
             Inl e \<Rightarrow> Inl e
           | Inr vs \<Rightarrow>
               (case map_of dm rowId of
                  None \<Rightarrow> Inl TypeError
                | Some items \<Rightarrow> push_rows cells rowIds (AList.update rowId (items @ vs) dm))))"

definition databaseMap :: "'col DatabaseBlockModel \<Rightarrow> error + DatabaseMap" where
  "databaseMap m =
     (let dm0 = fold (\<lambda>child dm.
                        AList.update (id' child)
                          [JStr (case text child of None \<Rightarrow> [] | Some t \<Rightarrow> t)] dm)
                     (children m) [];
          rowIds = map id' (children m)
      in push_rows (serializedCells m) rowIds dm0)"

text \<open>
  \<open>findIndex(item => item.toLocaleLowerCase().includes(...)) > -1\<close>: the search stops at
  the first item that matches; an item that is no string has no \<open>toLocaleLowerCase\<close>.
\<close>

fun matches :: "string \<Rightarrow> jsval list \<Rightarrow> error + bool" where
  "matches q [] = Inr False"
| "matches q (JStr s # items) =
     (if js_includes (toLocaleLowerCase s) (toLocaleLowerCase q) then Inr True
      else matches q items)"
| "matches q (item # items) = Inl TypeError"

fun existingRowIds :: "string \<Rightarrow> DatabaseMap \<Rightarrow> error + string list" where
  "existingRowIds q [] = Inr []"
| "existingRowIds q ((key, items) # dm) =
     (case matches q items of
        Inl e \<Rightarrow> Inl e
      | Inr found \<Rightarrow>
          (case existingRowIds q dm of
             Inl e \<Rightarrow> Inl e
           | Inr keys \<Rightarrow> Inr (if found then key # keys else keys)))"

text \<open>The handler \<open>_onSearch\<close> of the input event; \<open>el_value\<close> is the text of the input.\<close>

definition onSearch ::
  "string \<Rightarrow> 'col DatabaseBlockModel \<Rightarrow> toolbar_call list \<times> error option" where
  "onSearch el_value targetModel =
     (let inputValue = trim el_value;
          calls = SetSearchState Searching #
                  (if inputValue = [] then [SetSearchState SearchInput] else [])
      in case databaseMap targetModel of
           Inl e \<Rightarrow> (calls, Some e)
         | Inr dm \<Rightarrow>
             (case existingRowIds inputValue dm of
                Inl e \<Rightarrow> (calls, Some e)
              | Inr existing \<Rightarrow>
                  (calls @
                   [SetFilteredRowIds
                      (map id' (filter (\<lambda>child. id' child \<in> set existing)
                                  (children targetModel)))],
                   None)))"

text \<open>
  \<open>_resetSearchStatus\<close>, which the Escape key reaches on an empty input: the calls it
  makes through the two callbacks.
\<close>

definition resetSearchStatus :: "toolbar_call list" where
  "resetSearchStatus = [SetFilteredRowIds [], SetSearchState SearchIcon]"

text \<open>
  The getter \<open>_databaseMap\<close> returns when no list-valued cell holds an undefined or null
  item: reading \<open>item.value\<close> of such an item throws.
\<close>

definition no_nullish_items :: "YCells \<Rightarrow> bool" where
  "no_nullish_items cells =
     list_all (\<lambda>(rowId, yRow).
        list_all (\<lambda>(key, yCell).
           (case value yCell of
              JArr items \<Rightarrow> list_all (\<lambda>item. item \<noteq> JUndefined \<and> item \<noteq> JNull) items
            | _ \<Rightarrow> True)) yRow) cells"

section \<open>The drop callback of the edgeless drag handle\<close>

text \<open>
  The helpers of \<open>__internal__\<close> and the page's \<open>getParent\<close> are not among the source
  files: the callback takes them as parameters. A block element is its DOM node, compared
  by identity; \<open>element_model\<close> reads its \<open>model\<close> property. \<open>isInSamePath\<close> and
  \<open>getParent\<close> are those of the page the callback closes over.
\<close>

type_synonym BlockComponentElement = nat

type_synonym Point = "int \<times> int"

type_synonym Rect = "int \<times> int \<times> int \<times> int"

record EditingState =
  model :: BaseBlockModel

record Env =
  getBlockElementsExcludeSubtrees :: "BlockComponentElement list \<Rightarrow> BlockComponentElement list"
  getModelByBlockElement :: "BlockComponentElement \<Rightarrow> BaseBlockModel"
  isInSamePath :: "BaseBlockModel \<Rightarrow> BaseBlockModel \<Rightarrow> bool"
  getClosestFrameBlockElementById :: "string \<Rightarrow> BlockComponentElement option"
  getParent :: "BaseBlockModel \<Rightarrow> BaseBlockModel option"
  getRectByBlockElement :: "BlockComponentElement \<Rightarrow> Rect"
  element_model :: "BlockComponentElement \<Rightarrow> BaseBlockModel"

text \<open>
  Modelled from the spec: the drop type tags \<open>before\<close>, \<open>after\<close>, \<open>database\<close> and
  \<open>none\<close>, declared by the drag handle component.
\<close>

datatype DropType = Before | After | Database | DropNone

text \<open>
  The calls the callback makes on the page and the page block. \<open>moveBlocks\<close> is called
  with the models and the new parent, and in its longer form with the sibling to insert
  beside and whether to insert before it.
\<close>

datatype drop_call =
    CaptureSync
  | MoveBlocks "BaseBlockModel list" BaseBlockModel "(BaseBlockModel \<times> bool) option"
  | SetSelection string bool string Point
  | MoveBlocksToNewFrame "BaseBlockModel list" Point Rect

text \<open>
  The branch of \<open>onDropCallback\<close> for a drop on a target: the calls made, in order, and
  the assertion failure that ended it, if any. \<open>models0\<close> is \<open>models[0]\<close>.
\<close>

definition drop_on_target ::
  "Env \<Rightarrow> Point \<Rightarrow> BaseBlockModel list \<Rightarrow> BaseBlockModel \<Rightarrow> EditingState \<Rightarrow> DropType \<Rightarrow>
   drop_call list \<times> error option" where
  "drop_on_target env point models models0 state type =
     (if length models = 1 \<and> isInSamePath env (model state) models0 then ([], None)
      else
        (let focusId = id' models0
         in case getClosestFrameBlockElementById env (id' (model state)) of
              None \<Rightarrow> ([], Some AssertionError)
            | Some targetFrameBlock \<Rightarrow>
                (case getClosestFrameBlockElementById env focusId of
                   None \<Rightarrow> ([], Some AssertionError)
                 | Some frameBlock \<Rightarrow>
                     (let selection =
                            (if targetFrameBlock \<noteq> frameBlock
                             then [SetSelection (id' (element_model env targetFrameBlock))
                                     True focusId point]
                             else [])
                      in if type = Database
                         then (CaptureSync # MoveBlocks models (model state) None # selection,
                               None)
                         else (case getParent env (model state) of
                                 None \<Rightarrow> ([CaptureSync], Some AssertionError)
                               | Some parent \<Rightarrow>
                                   (CaptureSync #
                                    MoveBlocks models parent (Some (model state, type = Before)) #
                                    selection, None))))))"

text \<open>The branch for a drop on the blank area; \<open>first\<close> is the first dragged element.\<close>

definition drop_on_blank_area ::
  "Env \<Rightarrow> Point \<Rightarrow> BaseBlockModel list \<Rightarrow> BlockComponentElement \<Rightarrow>
   drop_call list \<times> error option" where
  "drop_on_blank_area env point models first =
     ([CaptureSync, MoveBlocksToNewFrame models point (getRectByBlockElement env first)], None)"

text \<open>
  \<open>onDropCallback\<close>. The target branch is taken under the guard
  \<open>editingState && type !== 'none'\<close> and ends with a return; every other drop reaches the
  blank-area branch.
\<close>

definition onDropCallback ::
  "Env \<Rightarrow> Point \<Rightarrow> BlockComponentElement list \<Rightarrow> EditingState option \<Rightarrow> DropType \<Rightarrow>
   drop_call list \<times> error option" where
  "onDropCallback env point blockElements editingState type =
     (let blockElementsExcludeSubtrees = getBlockElementsExcludeSubtrees env blockElements
      in case blockElementsExcludeSubtrees of
           [] \<Rightarrow> ([], None)
         | first # _ \<Rightarrow>
             (let models = map (getModelByBlockElement env) blockElementsExcludeSubtrees
              in case models of
                   [] \<Rightarrow> ([], None)
                 | models0 # _ \<Rightarrow>
                     (case editingState of
                        Some state \<Rightarrow>
                          (if type \<noteq> DropNone
                           then drop_on_target env point models models0 state type
                           else drop_on_blank_area env point models first)
                      | None \<Rightarrow> drop_on_blank_area env point models first)))"

section \<open>Example data\<close>

text \<open>
  A database block with one column definition, given rows and a given cell table, on
  which nothing has been signalled yet; and helpers for the drop callback in which no
  element is nested in another, every element is backed by the block \<open>b1\<close>, every two
  models are in the same path, and every block lies in the frame element 0.
\<close>

abbreviation example_db :: "BaseBlockModel list \<Rightarrow> YCells \<Rightarrow> string DatabaseBlockModel" where
  "example_db rows cells \<equiv>
     \<lparr>id' = ''db'', text = None, children = rows, yColumns = [(''c1'', ''Name'')],
      yCells = cells, propsUpdated = []\<rparr>"

abbreviation example_env :: Env where
  "example_env \<equiv>
     \<lparr>getBlockElementsExcludeSubtrees = (\<lambda>els. els),
      getModelByBlockElement = (\<lambda>e. \<lparr>id' = ''b1'', text = None\<rparr>),
      isInSamePath = (\<lambda>a b. True),
      getClosestFrameBlockElementById = (\<lambda>i. Some 0),
      getParent = (\<lambda>b. None),
      getRectByBlockElement = (\<lambda>e. (0, 0, 10, 10)),
      element_model = (\<lambda>e. \<lparr>id' = ''f1'', text = None\<rparr>)\<rparr>"

section \<open>Shared lemmas on the cell table\<close>

lemma forEach_Inr:
  assumes "\<And>r. f r = Inr (g r)"
  shows "forEach f cells = (map (\<lambda>(k, r). (k, g r)) cells, None)"
  by (induction cells) (auto simp: assms)

lemma map_of_map_rows:
  "map_of (map (\<lambda>(k, r). (k, g r)) cells) rowId = map_option g (map_of cells rowId)"
  by (induction cells) auto

lemma transact_None:
  "fn (yCells m) = (cells, None) \<Longrightarrow>
   transact fn m = (m\<lparr>yCells := cells, propsUpdated := propsUpdated m @ [cells]\<rparr>, None)"
  by (simp add: transact_def onYEvent_def)

lemma transact_Some:
  "fn (yCells m) = (cells, Some e) \<Longrightarrow> transact fn m = (m, Some e)"
  by (simp add: transact_def)

lemma transact_forEach_Inr:
  assumes "\<And>r. f r = Inr (g r)"
  shows "transact (forEach f) m =
     (m\<lparr>yCells := map (\<lambda>(k, r). (k, g r)) (yCells m),
        propsUpdated := propsUpdated m @ [map (\<lambda>(k, r). (k, g r)) (yCells m)]\<rparr>, None)"
  by (rule transact_None) (rule forEach_Inr [OF assms])

lemma getCell_lookup:
  "getCell m rowId c =
     (case map_of (yCells m) rowId of None \<Rightarrow> None | Some r \<Rightarrow> map_of r c)"
  by (simp add: getCell_def split: option.splits)

lemma getCell_rows:
  "yCells m' = map (\<lambda>(k, r). (k, g r)) (yCells m) \<Longrightarrow>
   getCell m' rowId c =
     (case map_of (yCells m) rowId of None \<Rightarrow> None | Some r \<Rightarrow> map_of (g r) c)"
  by (simp add: getCell_def map_of_map_rows split: option.splits)

lemma copy_callback_Inr:
  "copy_callback a b r =
     Inr (case map_of r a of None \<Rightarrow> r
          | Some c \<Rightarrow> AList.update b \<lparr>columnId = b, value = value c\<rparr> r)"
  by (simp add: copy_callback_def split: option.splits)

lemma copyCells:
  "copyCellsByColumn a b m =
     (m\<lparr>yCells := map (\<lambda>(k, r). (k, case map_of r a of None \<Rightarrow> r
          | Some c \<Rightarrow> AList.update b \<lparr>columnId = b, value = value c\<rparr> r)) (yCells m),
        propsUpdated := propsUpdated m @ [map (\<lambda>(k, r). (k, case map_of r a of None \<Rightarrow> r
          | Some c \<Rightarrow> AList.update b \<lparr>columnId = b, value = value c\<rparr> r)) (yCells m)]\<rparr>, None)"
  unfolding copyCellsByColumn_def by (rule transact_forEach_Inr [OF copy_callback_Inr])

lemma delete_callback_Inr: "delete_callback a r = Inr (AList.delete a r)"
  by (simp add: delete_callback_def)

lemma deleteCells:
  "deleteCellsByColumn a m =
     (m\<lparr>yCells := map (\<lambda>(k, r). (k, AList.delete a r)) (yCells m),
        propsUpdated := propsUpdated m @ [map (\<lambda>(k, r). (k, AList.delete a r)) (yCells m)]\<rparr>, None)"
  unfolding deleteCellsByColumn_def by (rule transact_forEach_Inr [OF delete_callback_Inr])

section \<open>Writing a cell and reading it back\<close>

text \<open>
  Claim C2. For every row id, column id and value, \<open>updateCell(rowId, {columnId, value})\<close>
  completes, and \<open>getCell(rowId, columnId)\<close> then returns exactly \<open>{columnId, value}\<close>.
  The model \<open>m\<close> is arbitrary, so this holds whether or not the row had a cell container
  before the call, and whatever cell the column held.
\<close>

theorem updateCell_getCell_roundtrip:
  "snd (updateCell rowId \<lparr>columnId = colId, value = v\<rparr> m) = None \<and>
   getCell (fst (updateCell rowId \<lparr>columnId = colId, value = v\<rparr> m)) rowId colId =
     Some \<lparr>columnId = colId, value = v\<rparr>"
  by (simp add: updateCell_def transact_def onYEvent_def getCell_def Let_def update_conv
      split: option.splits)

theorem updateCell_getCell_roundtrip_witness:
  "getCell (fst (updateCell ''r1'' \<lparr>columnId = ''c1'', value = JArr [JStr ''x'']\<rparr>
      (example_db [] []))) ''r1'' ''c1''
     = Some \<lparr>columnId = ''c1'', value = JArr [JStr ''x'']\<rparr> \<and>
   getCell (fst (updateCell ''r1'' \<lparr>columnId = ''c1'', value = JNum 2\<rparr>
      (example_db []
       [(''r1'', [(''c1'', \<lparr>columnId = ''c1'', value = JNum 1\<rparr>)])]))) ''r1'' ''c1''
     = Some \<lparr>columnId = ''c1'', value = JNum 2\<rparr>"
  using updateCell_getCell_roundtrip [of "''r1''" "''c1''" "JArr [JStr ''x'']"
      "(example_db [] [])"]
    updateCell_getCell_roundtrip [of "''r1''" "''c1''" "JNum 2"
      "(example_db []
       [(''r1'', [(''c1'', \<lparr>columnId = ''c1'', value = JNum 1\<rparr>)])])"]
  by simp

section \<open>Lookups that miss\<close>

text \<open>
  Claim C9. \<open>getColumn(id)\<close> returns null exactly when no column definition is stored
  under the id, and \<open>getCell(rowId, columnId)\<close> returns null exactly when the row is absent
  or the row has no cell for the column. Both are functions of the model alone with an
  \<open>option\<close> result: the source has no statement in them that throws or writes, so the
  model has no error result and no new state for them.
\<close>

theorem lookup_miss_is_null:
  "(getColumn m colId = None \<longleftrightarrow> colId \<notin> fst ` set (yColumns m)) \<and>
   (getCell m rowId colId = None \<longleftrightarrow>
      (rowId \<notin> fst ` set (yCells m) \<or>
       (\<exists>yRow. map_of (yCells m) rowId = Some yRow \<and> colId \<notin> fst ` set yRow)))"
  by (force simp: getColumn_def getCell_def map_of_eq_None_iff split: option.splits
      dest: map_of_SomeD)

theorem lookup_miss_is_null_witness:
  "getColumn (example_db []
       [(''r1'', [(''c1'', \<lparr>columnId = ''c1'', value = JNum 1\<rparr>)])]) ''c2'' = None \<and>
   getCell (example_db []
       [(''r1'', [(''c1'', \<lparr>columnId = ''c1'', value = JNum 1\<rparr>)])]) ''r2'' ''c1'' = None \<and>
   getCell (example_db []
       [(''r1'', [(''c1'', \<lparr>columnId = ''c1'', value = JNum 1\<rparr>)])]) ''r1'' ''c2'' = None"
  using lookup_miss_is_null [of
      "(example_db []
       [(''r1'', [(''c1'', \<lparr>columnId = ''c1'', value = JNum 1\<rparr>)])])" "''c1''" "''r2''"]
    lookup_miss_is_null [of
      "(example_db []
       [(''r1'', [(''c1'', \<lparr>columnId = ''c1'', value = JNum 1\<rparr>)])])" "''c2''" "''r1''"]
  by simp

section \<open>Copying a column and deleting the original\<close>

text \<open>
  Claim C3. For distinct column ids \<open>a\<close> and \<open>b\<close>, \<open>copyCellsByColumn(a, b)\<close> followed by
  \<open>deleteCellsByColumn(a)\<close> both complete; every row that had an \<open>a\<close>-cell then has a
  \<open>b\<close>-cell that carries the value of the \<open>a\<close>-cell it had before the copy (stored under
  \<open>b\<close>, so with \<open>b\<close> as its column id); no row has an \<open>a\<close>-cell; and for a row without an
  \<open>a\<close>-cell the copy leaves the \<open>b\<close> column as it was, creating no cell.
\<close>

theorem copy_then_delete_moves_column:
  assumes "a \<noteq> b"
  shows "snd (copyCellsByColumn a b m) = None \<and>
     snd (deleteCellsByColumn a (fst (copyCellsByColumn a b m))) = None \<and>
     (\<forall>rowId cell. getCell m rowId a = Some cell \<longrightarrow>
        getCell (fst (deleteCellsByColumn a (fst (copyCellsByColumn a b m)))) rowId b
          = Some \<lparr>columnId = b, value = value cell\<rparr>) \<and>
     (\<forall>rowId. getCell (fst (deleteCellsByColumn a (fst (copyCellsByColumn a b m)))) rowId a
          = None) \<and>
     (\<forall>rowId. getCell m rowId a = None \<longrightarrow>
        getCell (fst (copyCellsByColumn a b m)) rowId b = getCell m rowId b)"
proof -
  define copy where "copy = (\<lambda>r. case map_of r a of None \<Rightarrow> r
          | Some c \<Rightarrow> AList.update b \<lparr>columnId = b, value = value c\<rparr> r)"
  define m1 where "m1 = fst (copyCellsByColumn a b m)"
  define m2 where "m2 = fst (deleteCellsByColumn a m1)"
  have c1: "yCells m1 = map (\<lambda>(k, r). (k, copy r)) (yCells m)"
    by (simp add: m1_def copyCells copy_def)
  have c2: "yCells m2 = map (\<lambda>(k, r). (k, AList.delete a r)) (yCells m1)"
    by (simp add: m2_def deleteCells)
  have g1: "getCell m1 rowId c =
      (case map_of (yCells m) rowId of None \<Rightarrow> None | Some r \<Rightarrow> map_of (copy r) c)"
    for rowId c
    by (rule getCell_rows [OF c1])
  have g2: "getCell m2 rowId c =
      (case map_of (yCells m1) rowId of None \<Rightarrow> None
       | Some r \<Rightarrow> map_of (AList.delete a r) c)" for rowId c
    by (rule getCell_rows [OF c2])
  have g2': "getCell m2 rowId c =
      (case map_of (yCells m) rowId of None \<Rightarrow> None
       | Some r \<Rightarrow> map_of (AList.delete a (copy r)) c)" for rowId c
    by (simp add: g2 c1 map_of_map_rows split: option.splits)
  have e1: "snd (copyCellsByColumn a b m) = None" by (simp add: copyCells)
  have e2: "snd (deleteCellsByColumn a m1) = None" by (simp add: deleteCells)
  have p1: "getCell m2 rowId b = Some \<lparr>columnId = b, value = value cell\<rparr>"
    if "getCell m rowId a = Some cell" for rowId cell
    using that assms
    by (auto simp: g2' getCell_lookup [of m] copy_def update_conv split: option.splits)
  have p2: "getCell m2 rowId a = None" for rowId
    by (simp add: g2' delete_conv split: option.splits)
  have p3: "getCell m1 rowId b = getCell m rowId b" if "getCell m rowId a = None" for rowId
    using that by (auto simp: g1 getCell_lookup [of m] copy_def split: option.splits)
  from e1 e2 p1 p2 p3 show ?thesis unfolding m1_def m2_def by blast
qed

theorem copy_then_delete_moves_column_witness:
  "''a'' \<noteq> ''b'' \<and>
   getCell (example_db []
       [(''r1'', [(''a'', \<lparr>columnId = ''a'', value = JNum 7\<rparr>)]), (''r2'', [])]) ''r1'' ''a'' = Some \<lparr>columnId = ''a'', value = JNum 7\<rparr> \<and>
   getCell (fst (deleteCellsByColumn ''a'' (fst (copyCellsByColumn ''a'' ''b''
      (example_db []
       [(''r1'', [(''a'', \<lparr>columnId = ''a'', value = JNum 7\<rparr>)]), (''r2'', [])]))))) ''r1'' ''b'' = Some \<lparr>columnId = ''b'', value = JNum 7\<rparr> \<and>
   getCell (fst (deleteCellsByColumn ''a'' (fst (copyCellsByColumn ''a'' ''b''
      (example_db []
       [(''r1'', [(''a'', \<lparr>columnId = ''a'', value = JNum 7\<rparr>)]), (''r2'', [])]))))) ''r1'' ''a'' = None \<and>
   getCell (fst (copyCellsByColumn ''a'' ''b''
      (example_db []
       [(''r1'', [(''a'', \<lparr>columnId = ''a'', value = JNum 7\<rparr>)]), (''r2'', [])]))) ''r2'' ''b'' = None"
proof -
  have ne: "''a'' \<noteq> ''b''" by simp
  have had: "getCell (example_db []
       [(''r1'', [(''a'', \<lparr>columnId = ''a'', value = JNum 7\<rparr>)]), (''r2'', [])]) ''r1'' ''a'' = Some \<lparr>columnId = ''a'', value = JNum 7\<rparr>"
    by (simp add: getCell_def)
  have lacks: "getCell (example_db []
       [(''r1'', [(''a'', \<lparr>columnId = ''a'', value = JNum 7\<rparr>)]), (''r2'', [])]) ''r2'' c = None" for c
    by (simp add: getCell_def)
  from copy_then_delete_moves_column [OF ne, of
      "(example_db []
       [(''r1'', [(''a'', \<lparr>columnId = ''a'', value = JNum 7\<rparr>)]), (''r2'', [])])"] had lacks ne
  show ?thesis by auto
qed

section \<open>Converting a column to a single selection\<close>

lemma truthy_index0: "truthy v \<Longrightarrow> \<exists>x. index0 v = Inr x"
  by (cases v) auto

lemma convert_select_Inr:
  "convert_callback c Select r =
     Inr (case map_of r c of
            None \<Rightarrow> r
          | Some cell \<Rightarrow>
              if \<not> truthy (value cell) then r
              else AList.update c
                     \<lparr>columnId = c,
                        value = JArr [case index0 (value cell) of Inl e \<Rightarrow> JUndefined | Inr x \<Rightarrow> x]\<rparr> r)"
  using truthy_index0 by (fastforce simp: convert_callback_def split: option.splits sum.splits)

lemma convert_richtext_Inr:
  "convert_callback c RichText r =
     Inr (case map_of r c of
            None \<Rightarrow> r
          | Some cell \<Rightarrow>
              if \<not> truthy (value cell) then r
              else AList.update c \<lparr>columnId = c, value = YText (toString (value cell))\<rparr> r)"
  by (simp add: convert_callback_def split: option.splits)

text \<open>
  Claim C4. \<open>convertCellsByColumn(col, 'select')\<close> completes; it turns every list-valued
  cell of the column into the one-element list of the list's first element, \<open>value[0]\<close>
  (for the empty list that element is undefined); it leaves a row alone when the row has
  no cell in the column or the cell's value is falsy; and running it a second time changes
  no cell.
\<close>

theorem convert_select_first_wins:
  "snd (convertCellsByColumn c Select m) = None \<and>
   (\<forall>rowId cell xs. getCell m rowId c = Some cell \<and> value cell = JArr xs \<longrightarrow>
      getCell (fst (convertCellsByColumn c Select m)) rowId c =
        Some \<lparr>columnId = c, value = JArr [case xs of [] \<Rightarrow> JUndefined | x # _ \<Rightarrow> x]\<rparr>) \<and>
   (\<forall>rowId. getCell m rowId c = None \<or>
        (\<exists>cell. getCell m rowId c = Some cell \<and> \<not> truthy (value cell)) \<longrightarrow>
      map_of (yCells (fst (convertCellsByColumn c Select m))) rowId = map_of (yCells m) rowId) \<and>
   yCells (fst (convertCellsByColumn c Select (fst (convertCellsByColumn c Select m)))) =
     yCells (fst (convertCellsByColumn c Select m))"
proof -
  define g where "g = (\<lambda>r. case map_of r c of
            None \<Rightarrow> r
          | Some cell \<Rightarrow>
              if \<not> truthy (value cell) then r
              else AList.update c
                     \<lparr>columnId = c,
                        value = JArr [case index0 (value cell) of Inl e \<Rightarrow> JUndefined | Inr x \<Rightarrow> x]\<rparr> r)"
  have cb: "convert_callback c Select r = Inr (g r)" for r
    unfolding g_def by (rule convert_select_Inr)
  have conv: "convertCellsByColumn c Select m' =
      (m'\<lparr>yCells := map (\<lambda>(k, r). (k, g r)) (yCells m'),
          propsUpdated := propsUpdated m' @ [map (\<lambda>(k, r). (k, g r)) (yCells m')]\<rparr>, None)"
    for m' :: "'a DatabaseBlockModel"
    unfolding convertCellsByColumn_def by (rule transact_forEach_Inr [OF cb])
  have idem: "g (g r) = g r" for r
    by (auto simp: g_def update_conv split: option.splits)
  have y1: "yCells (fst (convertCellsByColumn c Select m)) = map (\<lambda>(k, r). (k, g r)) (yCells m)"
    by (simp add: conv)
  have gc: "getCell (fst (convertCellsByColumn c Select m)) rowId col =
      (case map_of (yCells m) rowId of None \<Rightarrow> None | Some r \<Rightarrow> map_of (g r) col)" for rowId col
    by (rule getCell_rows [OF y1])
  have a: "snd (convertCellsByColumn c Select m) = None" by (simp add: conv)
  have b: "getCell (fst (convertCellsByColumn c Select m)) rowId c =
        Some \<lparr>columnId = c, value = JArr [case xs of [] \<Rightarrow> JUndefined | x # _ \<Rightarrow> x]\<rparr>"
    if "getCell m rowId c = Some cell" "value cell = JArr xs" for rowId cell xs
    using that by (auto simp: gc getCell_lookup [of m] g_def update_conv split: option.splits)
  have s: "map_of (yCells (fst (convertCellsByColumn c Select m))) rowId = map_of (yCells m) rowId"
    if "getCell m rowId c = None \<or> (\<exists>cell. getCell m rowId c = Some cell \<and> \<not> truthy (value cell))"
    for rowId
    using that by (auto simp: y1 map_of_map_rows getCell_lookup [of m] g_def split: option.splits)
  have d: "yCells (fst (convertCellsByColumn c Select (fst (convertCellsByColumn c Select m)))) =
     yCells (fst (convertCellsByColumn c Select m))"
    by (simp add: conv idem case_prod_unfold)
  from a b s d show ?thesis by blast
qed

theorem convert_select_first_wins_witness:
  "getCell (example_db []
       [(''r1'', [(''c'', \<lparr>columnId = ''c'', value = JArr [JStr ''x'', JStr ''y'', JStr ''z'']\<rparr>)]),
                 (''r2'', [(''c'', \<lparr>columnId = ''c'', value = JNum 0\<rparr>)]),
                 (''r3'', [])]) ''r1'' ''c''
     = Some \<lparr>columnId = ''c'', value = JArr [JStr ''x'', JStr ''y'', JStr ''z'']\<rparr> \<and>
   getCell (fst (convertCellsByColumn ''c'' Select (example_db []
       [(''r1'', [(''c'', \<lparr>columnId = ''c'', value = JArr [JStr ''x'', JStr ''y'', JStr ''z'']\<rparr>)]),
                 (''r2'', [(''c'', \<lparr>columnId = ''c'', value = JNum 0\<rparr>)]),
                 (''r3'', [])]))) ''r1'' ''c''
     = Some \<lparr>columnId = ''c'', value = JArr [JStr ''x'']\<rparr> \<and>
   getCell (fst (convertCellsByColumn ''c'' Select (fst (convertCellsByColumn ''c'' Select (example_db []
       [(''r1'', [(''c'', \<lparr>columnId = ''c'', value = JArr [JStr ''x'', JStr ''y'', JStr ''z'']\<rparr>)]),
                 (''r2'', [(''c'', \<lparr>columnId = ''c'', value = JNum 0\<rparr>)]),
                 (''r3'', [])]))))) ''r1'' ''c''
     = Some \<lparr>columnId = ''c'', value = JArr [JStr ''x'']\<rparr> \<and>
   \<not> truthy (JNum 0) \<and>
   getCell (fst (convertCellsByColumn ''c'' Select (example_db []
       [(''r1'', [(''c'', \<lparr>columnId = ''c'', value = JArr [JStr ''x'', JStr ''y'', JStr ''z'']\<rparr>)]),
                 (''r2'', [(''c'', \<lparr>columnId = ''c'', value = JNum 0\<rparr>)]),
                 (''r3'', [])]))) ''r2'' ''c''
     = Some \<lparr>columnId = ''c'', value = JNum 0\<rparr> \<and>
   getCell (fst (convertCellsByColumn ''c'' Select (example_db []
       [(''r1'', [(''c'', \<lparr>columnId = ''c'', value = JArr [JStr ''x'', JStr ''y'', JStr ''z'']\<rparr>)]),
                 (''r2'', [(''c'', \<lparr>columnId = ''c'', value = JNum 0\<rparr>)]),
                 (''r3'', [])]))) ''r3'' ''c'' = None"
proof -
  define M where "M = (example_db []
       [(''r1'', [(''c'', \<lparr>columnId = ''c'', value = JArr [JStr ''x'', JStr ''y'', JStr ''z'']\<rparr>)]),
                 (''r2'', [(''c'', \<lparr>columnId = ''c'', value = JNum 0\<rparr>)]),
                 (''r3'', [])])"
  note inst = convert_select_first_wins [of "''c''" M]
  have had: "getCell M ''r1'' ''c''
     = Some \<lparr>columnId = ''c'', value = JArr [JStr ''x'', JStr ''y'', JStr ''z'']\<rparr>"
    by (simp add: getCell_def M_def)
  have falsy: "getCell M ''r2'' ''c'' = Some \<lparr>columnId = ''c'', value = JNum 0\<rparr>"
    by (simp add: getCell_def M_def)
  have absent: "getCell M ''r3'' ''c'' = None"
    by (simp add: getCell_def M_def)
  from inst had have once: "getCell (fst (convertCellsByColumn ''c'' Select M)) ''r1'' ''c''
     = Some \<lparr>columnId = ''c'', value = JArr [JStr ''x'']\<rparr>"
    by fastforce
  from inst have "yCells (fst (convertCellsByColumn ''c'' Select (fst (convertCellsByColumn ''c'' Select M))))
     = yCells (fst (convertCellsByColumn ''c'' Select M))"
    by blast
  with once have twice:
    "getCell (fst (convertCellsByColumn ''c'' Select (fst (convertCellsByColumn ''c'' Select M)))) ''r1'' ''c''
     = Some \<lparr>columnId = ''c'', value = JArr [JStr ''x'']\<rparr>"
    by (simp add: getCell_lookup)
  from inst falsy have "map_of (yCells (fst (convertCellsByColumn ''c'' Select M))) ''r2''
      = map_of (yCells M) ''r2''"
    by fastforce
  with falsy have skipped: "getCell (fst (convertCellsByColumn ''c'' Select M)) ''r2'' ''c''
     = Some \<lparr>columnId = ''c'', value = JNum 0\<rparr>"
    by (simp add: getCell_lookup)
  from inst absent have "map_of (yCells (fst (convertCellsByColumn ''c'' Select M))) ''r3''
      = map_of (yCells M) ''r3''"
    by blast
  with absent have none: "getCell (fst (convertCellsByColumn ''c'' Select M)) ''r3'' ''c'' = None"
    by (simp add: getCell_lookup)
  from had once twice skipped none show ?thesis
    unfolding M_def by simp
qed

section \<open>The column id of a stored cell\<close>

lemma row_update_consistent:
  "list_all (\<lambda>(key, yCell). columnId yCell = key) yRow \<Longrightarrow> columnId cell = k \<Longrightarrow>
   list_all (\<lambda>(key, yCell). columnId yCell = key) (AList.update k cell yRow)"
  by (induction yRow) auto

lemma row_delete_consistent:
  "list_all (\<lambda>(key, yCell). columnId yCell = key) yRow \<Longrightarrow>
   list_all (\<lambda>(key, yCell). columnId yCell = key) (AList.delete k yRow)"
  by (induction yRow) auto

lemma rows_update_consistent:
  "cells_consistent cells \<Longrightarrow> list_all (\<lambda>(key, yCell). columnId yCell = key) yRow \<Longrightarrow>
   cells_consistent (AList.update rowId yRow cells)"
  unfolding cells_consistent_def by (induction cells) auto

lemma rows_lookup_consistent:
  "cells_consistent cells \<Longrightarrow> map_of cells rowId = Some yRow \<Longrightarrow>
   list_all (\<lambda>(key, yCell). columnId yCell = key) yRow"
  unfolding cells_consistent_def by (induction cells) (auto split: if_splits)

lemma forEach_consistent:
  assumes "\<And>r r'. list_all (\<lambda>(key, yCell). columnId yCell = key) r \<Longrightarrow> f r = Inr r' \<Longrightarrow>
             list_all (\<lambda>(key, yCell). columnId yCell = key) r'"
  shows "cells_consistent cells \<Longrightarrow> cells_consistent (fst (forEach f cells))"
proof (induction cells)
  case Nil
  then show ?case by simp
next
  case (Cons p cells)
  obtain k r where p: "p = (k, r)" by (cases p)
  from Cons.prems p have r: "list_all (\<lambda>(key, yCell). columnId yCell = key) r"
    and rest: "cells_consistent cells"
    by (simp_all add: cells_consistent_def)
  show ?case
  proof (cases "f r")
    case (Inl e)
    with Cons.prems p show ?thesis by simp
  next
    case (Inr r')
    obtain rows' res where fe: "forEach f cells = (rows', res)" by (cases "forEach f cells")
    from assms [OF r Inr] Cons.IH [OF rest] Inr p fe show ?thesis
      by (simp add: cells_consistent_def)
  qed
qed

lemma transact_consistent:
  "cells_consistent (yCells m) \<Longrightarrow> cells_consistent (fst (fn (yCells m))) \<Longrightarrow>
   cells_consistent (yCells (fst (transact fn m)))"
  by (auto simp: transact_def onYEvent_def split: prod.splits option.splits)

lemma transact_forEach_consistent:
  assumes "\<And>r r'. list_all (\<lambda>(key, yCell). columnId yCell = key) r \<Longrightarrow> f r = Inr r' \<Longrightarrow>
             list_all (\<lambda>(key, yCell). columnId yCell = key) r'"
    and "cells_consistent (yCells m)"
  shows "cells_consistent (yCells (fst (transact (forEach f) m)))"
  using assms(2) forEach_consistent [of f "yCells m", OF assms(1) assms(2)]
  by (rule transact_consistent)

lemma copy_callback_consistent:
  "list_all (\<lambda>(key, yCell). columnId yCell = key) r \<Longrightarrow> copy_callback a b r = Inr r' \<Longrightarrow>
   list_all (\<lambda>(key, yCell). columnId yCell = key) r'"
  by (auto simp: copy_callback_def row_update_consistent split: option.splits)

lemma convert_callback_consistent:
  "list_all (\<lambda>(key, yCell). columnId yCell = key) r \<Longrightarrow> convert_callback c t r = Inr r' \<Longrightarrow>
   list_all (\<lambda>(key, yCell). columnId yCell = key) r'"
  by (auto simp: convert_callback_def row_update_consistent
      split: option.splits newType.splits if_splits sum.splits)

lemma rename_callback_consistent:
  "list_all (\<lambda>(key, yCell). columnId yCell = key) r \<Longrightarrow> rename_callback c old new r = Inr r' \<Longrightarrow>
   list_all (\<lambda>(key, yCell). columnId yCell = key) r'"
  by (auto simp: rename_callback_def Let_def row_update_consistent split: option.splits sum.splits)

lemma deleteTag_callback_consistent:
  "list_all (\<lambda>(key, yCell). columnId yCell = key) r \<Longrightarrow> deleteTag_callback c target r = Inr r' \<Longrightarrow>
   list_all (\<lambda>(key, yCell). columnId yCell = key) r'"
  by (auto simp: deleteTag_callback_def row_update_consistent
      split: option.splits sum.splits jsval.splits)

lemma updateCell_consistent:
  assumes "cells_consistent (yCells m)"
  shows "cells_consistent (yCells (fst (updateCell rowId cell m)))"
proof (cases "map_of (yCells m) rowId")
  case None
  have "list_all (\<lambda>(key, yCell). columnId yCell = key)
          (AList.update (columnId cell) \<lparr>columnId = columnId cell, value = value cell\<rparr> [])"
    by simp
  with assms None show ?thesis
    by (simp add: updateCell_def Let_def transact_def onYEvent_def rows_update_consistent)
next
  case (Some yRow)
  from rows_lookup_consistent [OF assms Some]
  have "list_all (\<lambda>(key, yCell). columnId yCell = key)
          (AList.update (columnId cell) \<lparr>columnId = columnId cell, value = value cell\<rparr> yRow)"
    by (simp add: row_update_consistent)
  with assms Some show ?thesis
    by (simp add: updateCell_def Let_def transact_def onYEvent_def rows_update_consistent)
qed

text \<open>
  Claim C5. Every operation that writes a cell (\<open>updateCell\<close>, \<open>copyCellsByColumn\<close>,
  \<open>convertCellsByColumn\<close> to either type, \<open>renameSelectedCellTag\<close> and
  \<open>deleteSelectedCellTag\<close>) preserves the invariant that every stored cell carries the
  column id of the key it is stored under.
\<close>

theorem writes_keep_columnId:
  assumes "cells_consistent (yCells m)"
  shows "cells_consistent (yCells (fst (updateCell rowId cell m))) \<and>
    cells_consistent (yCells (fst (copyCellsByColumn fromId toId m))) \<and>
    cells_consistent (yCells (fst (convertCellsByColumn colId newType m))) \<and>
    cells_consistent (yCells (fst (renameSelectedCellTag colId oldValue newValue m))) \<and>
    cells_consistent (yCells (fst (deleteSelectedCellTag colId target m)))"
proof -
  have "cells_consistent (yCells (fst (copyCellsByColumn fromId toId m)))"
    unfolding copyCellsByColumn_def
    by (rule transact_forEach_consistent [OF copy_callback_consistent assms])
  moreover have "cells_consistent (yCells (fst (convertCellsByColumn colId newType m)))"
    unfolding convertCellsByColumn_def
    by (rule transact_forEach_consistent [OF convert_callback_consistent assms])
  moreover have "cells_consistent (yCells (fst (renameSelectedCellTag colId oldValue newValue m)))"
    unfolding renameSelectedCellTag_def
    by (rule transact_forEach_consistent [OF rename_callback_consistent assms])
  moreover have "cells_consistent (yCells (fst (deleteSelectedCellTag colId target m)))"
    unfolding deleteSelectedCellTag_def
    by (rule transact_forEach_consistent [OF deleteTag_callback_consistent assms])
  ultimately show ?thesis using updateCell_consistent [OF assms] by blast
qed

theorem writes_keep_columnId_witness:
  "cells_consistent (yCells (example_db []
       [(''r1'', [(''c'', \<lparr>columnId = ''c'', value = JArr [JTag (SelectTag 1 ''A'')]\<rparr>)]),
                 (''r2'', [(''c'', \<lparr>columnId = ''c'', value = JNum 5\<rparr>)])])) \<and>
   cells_consistent (yCells (fst (updateCell ''r3'' \<lparr>columnId = ''d'', value = JStr ''v''\<rparr> (example_db []
       [(''r1'', [(''c'', \<lparr>columnId = ''c'', value = JArr [JTag (SelectTag 1 ''A'')]\<rparr>)]),
                 (''r2'', [(''c'', \<lparr>columnId = ''c'', value = JNum 5\<rparr>)])])))) \<and>
   cells_consistent (yCells (fst (copyCellsByColumn ''c'' ''d'' (example_db []
       [(''r1'', [(''c'', \<lparr>columnId = ''c'', value = JArr [JTag (SelectTag 1 ''A'')]\<rparr>)]),
                 (''r2'', [(''c'', \<lparr>columnId = ''c'', value = JNum 5\<rparr>)])])))) \<and>
   cells_consistent (yCells (fst (convertCellsByColumn ''c'' RichText (example_db []
       [(''r1'', [(''c'', \<lparr>columnId = ''c'', value = JArr [JTag (SelectTag 1 ''A'')]\<rparr>)]),
                 (''r2'', [(''c'', \<lparr>columnId = ''c'', value = JNum 5\<rparr>)])])))) \<and>
   cells_consistent (yCells (fst (renameSelectedCellTag ''c'' (SelectTag 1 ''A'') (SelectTag 2 ''B'') (example_db []
       [(''r1'', [(''c'', \<lparr>columnId = ''c'', value = JArr [JTag (SelectTag 1 ''A'')]\<rparr>)]),
                 (''r2'', [(''c'', \<lparr>columnId = ''c'', value = JNum 5\<rparr>)])])))) \<and>
   cells_consistent (yCells (fst (deleteSelectedCellTag ''c'' (SelectTag 3 ''A'') (example_db []
       [(''r1'', [(''c'', \<lparr>columnId = ''c'', value = JArr [JTag (SelectTag 1 ''A'')]\<rparr>)]),
                 (''r2'', [(''c'', \<lparr>columnId = ''c'', value = JNum 5\<rparr>)])]))))"
proof -
  have inv: "cells_consistent (yCells (example_db []
       [(''r1'', [(''c'', \<lparr>columnId = ''c'', value = JArr [JTag (SelectTag 1 ''A'')]\<rparr>)]),
                 (''r2'', [(''c'', \<lparr>columnId = ''c'', value = JNum 5\<rparr>)])]))"
    by (simp add: cells_consistent_def)
  from writes_keep_columnId [OF inv, of "''r3''" "\<lparr>columnId = ''d'', value = JStr ''v''\<rparr>"
      "''c''" "''d''" "''c''" RichText]
    writes_keep_columnId [OF inv, of "''r3''" "\<lparr>columnId = ''d'', value = JStr ''v''\<rparr>"
      "''c''" "''d''" "''c''" RichText "SelectTag 1 ''A''" "SelectTag 2 ''B''" "SelectTag 3 ''A''"]
    inv
  show ?thesis by simp
qed

section \<open>Renaming a tag\<close>

lemma indexOf_not_found:
  "(indexOf xs old = - 1) = (\<forall>x \<in> set xs. \<not> strict_equals_tag x old)"
  and indexOf_range: "- 1 \<le> indexOf xs old \<and> indexOf xs old < int (length xs)"
  by (induction xs) (auto simp: Let_def)

text \<open>
  Claim C1 says that \<open>renameSelectedCellTag\<close> finds the tag by the equality of its value.
  The source looks it up with \<open>indexOf\<close>, which finds an object only by identity. On the
  spec's own example, the cell \<open>[{value:'A'}, {value:'C'}]\<close> with \<open>oldTag\<close> another object
  \<open>{value:'A'}\<close> and \<open>newTag\<close> \<open>{value:'B'}\<close>, the lookup gives -1, the assignment at
  index -1 changes no element, and the cell keeps the tag \<open>A\<close>.
\<close>

theorem rename_by_value_misses:
  "getCell (fst (renameSelectedCellTag ''col'' (SelectTag 3 ''A'') (SelectTag 4 ''B'')
      (example_db []
       [(''r1'', [(''col'', \<lparr>columnId = ''col'',
                   value = JArr [JTag (SelectTag 1 ''A''), JTag (SelectTag 2 ''C'')]\<rparr>)])]))) ''r1'' ''col''
   = Some \<lparr>columnId = ''col'', value = JArr [JTag (SelectTag 1 ''A''), JTag (SelectTag 2 ''C'')]\<rparr>"
  by (simp add: renameSelectedCellTag_def transact_def rename_callback_def onYEvent_def
      getCell_def array_assign_def)

text \<open>
  When \<open>oldTag\<close> is the stored object itself the tag is replaced in place, and the sibling
  \<open>deleteSelectedCellTag\<close> finds its tag by value.
\<close>

lemma rename_same_object:
  "getCell (fst (renameSelectedCellTag ''col'' (SelectTag 1 ''A'') (SelectTag 4 ''B'')
      (example_db []
       [(''r1'', [(''col'', \<lparr>columnId = ''col'',
                   value = JArr [JTag (SelectTag 1 ''A''), JTag (SelectTag 2 ''C'')]\<rparr>)])]))) ''r1'' ''col''
   = Some \<lparr>columnId = ''col'', value = JArr [JTag (SelectTag 4 ''B''), JTag (SelectTag 2 ''C'')]\<rparr>"
  by (simp add: renameSelectedCellTag_def transact_def rename_callback_def onYEvent_def
      getCell_def array_assign_def)

lemma deleteTag_by_value:
  "getCell (fst (deleteSelectedCellTag ''col'' (SelectTag 3 ''C'')
      (example_db []
       [(''r1'', [(''col'', \<lparr>columnId = ''col'',
                   value = JArr [JTag (SelectTag 1 ''A''), JTag (SelectTag 2 ''C'')]\<rparr>)])]))) ''r1'' ''col''
   = Some \<lparr>columnId = ''col'', value = JArr [JTag (SelectTag 1 ''A'')]\<rparr>"
  by (simp add: deleteSelectedCellTag_def transact_def deleteTag_callback_def onYEvent_def
      getCell_def)

section \<open>One notification for a bulk operation\<close>

lemma forEach_completes:
  "snd (forEach callback cells) = None \<Longrightarrow>
   list_all2 (\<lambda>(rowId, yRow) (rowId', yRow'). rowId' = rowId \<and> callback yRow = Inr yRow')
     cells (fst (forEach callback cells))"
proof (induction cells)
  case Nil
  then show ?case by simp
next
  case (Cons p cells)
  obtain rowId yRow where p: "p = (rowId, yRow)" by (cases p)
  obtain rows' res where fe: "forEach callback cells = (rows', res)"
    by (cases "forEach callback cells")
  from Cons.prems p fe obtain yRow' where cb: "callback yRow = Inr yRow'" and res: "res = None"
    by (cases "callback yRow") auto
  from Cons.IH fe res have "list_all2
      (\<lambda>(rowId, yRow) (rowId', yRow'). rowId' = rowId \<and> callback yRow = Inr yRow') cells rows'"
    by simp
  with p fe cb show ?case by simp
qed

lemma transact_completes:
  assumes "snd (transact (forEach callback) m) = None"
  shows "one_consolidated_event callback m (fst (transact (forEach callback) m))"
proof -
  obtain cells res where fe: "forEach callback (yCells m) = (cells, res)"
    by (cases "forEach callback (yCells m)")
  with assms have res: "res = None"
    by (cases res) (simp_all add: transact_def)
  from forEach_completes [of callback "yCells m"] fe res
  have "list_all2 (\<lambda>(rowId, yRow) (rowId', yRow'). rowId' = rowId \<and> callback yRow = Inr yRow')
      (yCells m) cells"
    by simp
  with fe res show ?thesis
    by (simp add: transact_None [of "forEach callback" m cells] one_consolidated_event_def)
qed

lemma transact_fails:
  "snd (transact fn m) \<noteq> None \<Longrightarrow> fst (transact fn m) = m"
  by (auto simp: transact_def split: prod.splits option.splits)

lemma convert_callback_Inr: "\<exists>r'. convert_callback c t r = Inr r'"
  by (cases t) (simp_all add: convert_select_Inr convert_richtext_Inr)

lemma convert_completes: "snd (convertCellsByColumn c t m) = None"
proof -
  have cb: "convert_callback c t r = Inr (projr (convert_callback c t r))" for r
    using convert_callback_Inr [of c t r] by auto
  show ?thesis
    unfolding convertCellsByColumn_def
    by (simp add: transact_forEach_Inr
        [of "convert_callback c t" "\<lambda>r. projr (convert_callback c t r)", OF cb])
qed

text \<open>
  Claim C6. Each bulk column operation is one call of \<open>transact\<close> around its loop over
  the rows. Whatever the number of rows, an operation that completes has made
  \<open>propsUpdated\<close> fire exactly once, and the cell table on show at that moment is the
  final one, in which every row has been through the callback. \<open>copyCellsByColumn\<close>,
  \<open>deleteCellsByColumn\<close> and \<open>convertCellsByColumn\<close> always complete.
  \<open>renameSelectedCellTag\<close> and \<open>deleteSelectedCellTag\<close> throw on a cell that is no list,
  and then nothing is changed and nothing is signalled. So no table in which only some
  rows are rewritten is ever shown.
\<close>

theorem bulk_operation_one_event:
  "(snd (copyCellsByColumn fromId toId m) = None \<and>
    one_consolidated_event (copy_callback fromId toId) m (fst (copyCellsByColumn fromId toId m))) \<and>
   (snd (deleteCellsByColumn colId m) = None \<and>
    one_consolidated_event (delete_callback colId) m (fst (deleteCellsByColumn colId m))) \<and>
   (snd (convertCellsByColumn colId newType m) = None \<and>
    one_consolidated_event (convert_callback colId newType) m
      (fst (convertCellsByColumn colId newType m))) \<and>
   (if snd (renameSelectedCellTag colId oldValue newValue m) = None
    then one_consolidated_event (rename_callback colId oldValue newValue) m
           (fst (renameSelectedCellTag colId oldValue newValue m))
    else fst (renameSelectedCellTag colId oldValue newValue m) = m) \<and>
   (if snd (deleteSelectedCellTag colId target m) = None
    then one_consolidated_event (deleteTag_callback colId target) m
           (fst (deleteSelectedCellTag colId target m))
    else fst (deleteSelectedCellTag colId target m) = m)"
proof -
  have copy: "snd (copyCellsByColumn fromId toId m) = None" by (simp add: copyCells)
  have del: "snd (deleteCellsByColumn colId m) = None" by (simp add: deleteCells)
  note conv = convert_completes [of colId newType m]
  from copy have "one_consolidated_event (copy_callback fromId toId) m
      (fst (copyCellsByColumn fromId toId m))"
    unfolding copyCellsByColumn_def by (rule transact_completes)
  moreover from del have "one_consolidated_event (delete_callback colId) m
      (fst (deleteCellsByColumn colId m))"
    unfolding deleteCellsByColumn_def by (rule transact_completes)
  moreover from conv have "one_consolidated_event (convert_callback colId newType) m
      (fst (convertCellsByColumn colId newType m))"
    unfolding convertCellsByColumn_def by (rule transact_completes)
  moreover have "if snd (renameSelectedCellTag colId oldValue newValue m) = None
    then one_consolidated_event (rename_callback colId oldValue newValue) m
           (fst (renameSelectedCellTag colId oldValue newValue m))
    else fst (renameSelectedCellTag colId oldValue newValue m) = m"
    unfolding renameSelectedCellTag_def by (simp add: transact_completes transact_fails)
  moreover have "if snd (deleteSelectedCellTag colId target m) = None
    then one_consolidated_event (deleteTag_callback colId target) m
           (fst (deleteSelectedCellTag colId target m))
    else fst (deleteSelectedCellTag colId target m) = m"
    unfolding deleteSelectedCellTag_def by (simp add: transact_completes transact_fails)
  ultimately show ?thesis using copy del conv by blast
qed

theorem bulk_operation_one_event_witness:
  "length (yCells (example_db []
       [(''r1'', [(''a'', \<lparr>columnId = ''a'', value = JNum 1\<rparr>)]),
                 (''r2'', [(''a'', \<lparr>columnId = ''a'', value = JNum 2\<rparr>)]),
                 (''r3'', [(''a'', \<lparr>columnId = ''a'', value = JNum 3\<rparr>)])])) = 3 \<and>
   propsUpdated (fst (copyCellsByColumn ''a'' ''b'' (example_db []
       [(''r1'', [(''a'', \<lparr>columnId = ''a'', value = JNum 1\<rparr>)]),
                 (''r2'', [(''a'', \<lparr>columnId = ''a'', value = JNum 2\<rparr>)]),
                 (''r3'', [(''a'', \<lparr>columnId = ''a'', value = JNum 3\<rparr>)])]))) =
     [yCells (fst (copyCellsByColumn ''a'' ''b'' (example_db []
       [(''r1'', [(''a'', \<lparr>columnId = ''a'', value = JNum 1\<rparr>)]),
                 (''r2'', [(''a'', \<lparr>columnId = ''a'', value = JNum 2\<rparr>)]),
                 (''r3'', [(''a'', \<lparr>columnId = ''a'', value = JNum 3\<rparr>)])])))] \<and>
   snd (renameSelectedCellTag ''a'' (SelectTag 1 ''A'') (SelectTag 2 ''B'') (example_db []
       [(''r1'', [(''a'', \<lparr>columnId = ''a'', value = JNum 1\<rparr>)]),
                 (''r2'', [(''a'', \<lparr>columnId = ''a'', value = JNum 2\<rparr>)]),
                 (''r3'', [(''a'', \<lparr>columnId = ''a'', value = JNum 3\<rparr>)])])) = Some TypeError \<and>
   fst (renameSelectedCellTag ''a'' (SelectTag 1 ''A'') (SelectTag 2 ''B'') (example_db []
       [(''r1'', [(''a'', \<lparr>columnId = ''a'', value = JNum 1\<rparr>)]),
                 (''r2'', [(''a'', \<lparr>columnId = ''a'', value = JNum 2\<rparr>)]),
                 (''r3'', [(''a'', \<lparr>columnId = ''a'', value = JNum 3\<rparr>)])])) = (example_db []
       [(''r1'', [(''a'', \<lparr>columnId = ''a'', value = JNum 1\<rparr>)]),
                 (''r2'', [(''a'', \<lparr>columnId = ''a'', value = JNum 2\<rparr>)]),
                 (''r3'', [(''a'', \<lparr>columnId = ''a'', value = JNum 3\<rparr>)])])"
proof -
  define M where "M = (example_db []
       [(''r1'', [(''a'', \<lparr>columnId = ''a'', value = JNum 1\<rparr>)]),
                 (''r2'', [(''a'', \<lparr>columnId = ''a'', value = JNum 2\<rparr>)]),
                 (''r3'', [(''a'', \<lparr>columnId = ''a'', value = JNum 3\<rparr>)])])"
  note inst = bulk_operation_one_event [of "''a''" "''b''" M "''a''" Select
      "SelectTag 1 ''A''" "SelectTag 2 ''B''" "SelectTag 1 ''A''"]
  have n: "length (yCells M) = 3" and none: "propsUpdated M = []"
    by (simp_all add: M_def)
  have thrown: "snd (renameSelectedCellTag ''a'' (SelectTag 1 ''A'') (SelectTag 2 ''B'') M)
      = Some TypeError"
    by (simp add: M_def renameSelectedCellTag_def transact_def rename_callback_def)
  from inst none have "propsUpdated (fst (copyCellsByColumn ''a'' ''b'' M)) =
     [yCells (fst (copyCellsByColumn ''a'' ''b'' M))]"
    by (simp add: one_consolidated_event_def)
  moreover from inst thrown
  have "fst (renameSelectedCellTag ''a'' (SelectTag 1 ''A'') (SelectTag 2 ''B'') M) = M"
    by simp
  ultimately show ?thesis using n thrown unfolding M_def by simp
qed

section \<open>Searching with an empty query\<close>

lemma js_includes_empty: "js_includes s []"
  by (cases s) simp_all

lemma matches_empty_query: "matches [] (JStr s # items) = Inr True"
  by (simp add: toLocaleLowerCase_def js_includes_empty)

lemma existingRowIds_empty_query:
  "\<forall>(key, items) \<in> set dm. \<exists>s rest. items = JStr s # rest \<Longrightarrow>
   existingRowIds [] dm = Inr (map fst dm)"
  by (induction dm) (auto simp: toLocaleLowerCase_def js_includes_empty)

lemma map_value_property_Inr:
  "list_all (\<lambda>item. item \<noteq> JUndefined \<and> item \<noteq> JNull) items \<Longrightarrow>
   \<exists>vs. map_value_property items = Inr vs"
proof (induction items)
  case Nil
  then show ?case by simp
next
  case (Cons item items)
  then obtain vs where "map_value_property items = Inr vs" by auto
  moreover from Cons.prems obtain v where "value_property item = Inr v"
    by (cases item) auto
  ultimately show ?case by simp
qed

lemma columnValues_Inr:
  "list_all (\<lambda>(key, yCell).
      (case value yCell of
         JArr items \<Rightarrow> list_all (\<lambda>item. item \<noteq> JUndefined \<and> item \<noteq> JNull) items
       | _ \<Rightarrow> True)) yRow \<Longrightarrow>
   \<exists>vs. columnValues (map (\<lambda>(key, yCell). (key, yCell\<lparr>value := toJSON (value yCell)\<rparr>)) yRow) = Inr vs"
proof (induction yRow)
  case Nil
  then show ?case by simp
next
  case (Cons p yRow)
  obtain key yCell where p: "p = (key, yCell)" by (cases p)
  from Cons obtain ws where ws:
    "columnValues (map (\<lambda>(key, yCell). (key, yCell\<lparr>value := toJSON (value yCell)\<rparr>)) yRow) = Inr ws"
    by auto
  have "\<exists>vs. (case toJSON (value yCell) of
              JArr items \<Rightarrow> map_value_property items
            | v \<Rightarrow> Inr [JStr (toString v)]) = Inr vs"
  proof (cases "value yCell")
    case (JArr items)
    with Cons.prems p show ?thesis by (simp add: map_value_property_Inr)
  qed simp_all
  with ws p show ?case by auto
qed

lemma serialized_row_Inr:
  assumes "no_nullish_items (yCells m)" and "map_of (serializedCells m) rowId = Some columnMap"
  shows "\<exists>vs. columnValues columnMap = Inr vs"
proof -
  from assms(2) obtain yRow where yRow: "map_of (yCells m) rowId = Some yRow"
    and cm: "columnMap = map (\<lambda>(key, yCell). (key, yCell\<lparr>value := toJSON (value yCell)\<rparr>)) yRow"
    by (auto simp: serializedCells_def map_of_map_rows)
  from yRow have "(rowId, yRow) \<in> set (yCells m)" by (rule map_of_SomeD)
  with assms(1) have "list_all (\<lambda>(key, yCell).
      (case value yCell of
         JArr items \<Rightarrow> list_all (\<lambda>item. item \<noteq> JUndefined \<and> item \<noteq> JNull) items
       | _ \<Rightarrow> True)) yRow"
    by (auto simp: no_nullish_items_def list_all_iff)
  from columnValues_Inr [OF this] cm show ?thesis by simp
qed

lemma set_update_cases:
  "p \<in> set (AList.update k v al) \<Longrightarrow> p = (k, v) \<or> p \<in> set al"
  by (induction al) (auto split: if_splits)

lemma push_rows_Inr:
  assumes "\<And>rowId columnMap. map_of cells rowId = Some columnMap \<Longrightarrow> \<exists>vs. columnValues columnMap = Inr vs"
  shows "set rowIds \<subseteq> fst ` set dm \<Longrightarrow>
     \<forall>(key, items) \<in> set dm. \<exists>s rest. items = JStr s # rest \<Longrightarrow>
     \<exists>dm'. push_rows cells rowIds dm = Inr dm' \<and> fst ` set dm' = fst ` set dm \<and>
       (\<forall>(key, items) \<in> set dm'. \<exists>s rest. items = JStr s # rest)"
proof (induction rowIds arbitrary: dm)
  case Nil
  then show ?case by simp
next
  case (Cons rowId rowIds)
  show ?case
  proof (cases "map_of cells rowId")
    case None
    with Cons show ?thesis by simp
  next
    case (Some columnMap)
    from assms [OF Some] obtain vs where vs: "columnValues columnMap = Inr vs" by blast
    from Cons.prems(1) have "rowId \<in> fst ` set dm" by simp
    then obtain items where items: "map_of dm rowId = Some items"
      by (metis map_of_eq_None_iff not_Some_eq)
    then have "(rowId, items) \<in> set dm" by (rule map_of_SomeD)
    with Cons.prems(2) obtain s rest where hd: "items = JStr s # rest" by auto
    let ?dm = "AList.update rowId (items @ vs) dm"
    have keys: "fst ` set ?dm = fst ` set dm"
      using \<open>rowId \<in> fst ` set dm\<close> by (auto simp: dom_update)
    have headed: "\<forall>(key, items) \<in> set ?dm. \<exists>s rest. items = JStr s # rest"
      using Cons.prems(2) hd by (auto dest!: set_update_cases)
    from Cons.prems(1) keys have "set rowIds \<subseteq> fst ` set ?dm" by simp
    from Cons.IH [OF this headed] keys Some vs items show ?thesis by simp
  qed
qed

lemma fold_rows_headed:
  "\<forall>(key, items) \<in> set dm. \<exists>s rest. items = JStr s # rest \<Longrightarrow>
   (\<forall>(key, items) \<in> set (fold (\<lambda>child dm.
                        AList.update (id' child)
                          [JStr (case text child of None \<Rightarrow> [] | Some t \<Rightarrow> t)] dm) cs dm).
      \<exists>s rest. items = JStr s # rest) \<and>
   fst ` set (fold (\<lambda>child dm.
                        AList.update (id' child)
                          [JStr (case text child of None \<Rightarrow> [] | Some t \<Rightarrow> t)] dm) cs dm)
     = id' ` set cs \<union> fst ` set dm"
proof (induction cs arbitrary: dm)
  case Nil
  then show ?case by simp
next
  case (Cons child cs)
  let ?dm = "AList.update (id' child) [JStr (case text child of None \<Rightarrow> [] | Some t \<Rightarrow> t)] dm"
  from Cons.prems have "\<forall>(key, items) \<in> set ?dm. \<exists>s rest. items = JStr s # rest"
    by (auto dest!: set_update_cases)
  from Cons.IH [OF this] show ?case by (auto simp: dom_update)
qed

lemma databaseMap_Inr:
  assumes "no_nullish_items (yCells m)"
  shows "\<exists>dm. databaseMap m = Inr dm \<and> fst ` set dm = id' ` set (children m) \<and>
       (\<forall>(key, items) \<in> set dm. \<exists>s rest. items = JStr s # rest)"
proof -
  let ?dm0 = "fold (\<lambda>child dm.
                        AList.update (id' child)
                          [JStr (case text child of None \<Rightarrow> [] | Some t \<Rightarrow> t)] dm)
                     (children m) []"
  have h0: "\<forall>(key, items) \<in> set ?dm0. \<exists>s rest. items = JStr s # rest"
    and k0: "fst ` set ?dm0 = id' ` set (children m)"
    using fold_rows_headed [of "[]" "children m"] by simp_all
  have "set (map id' (children m)) \<subseteq> fst ` set ?dm0" using k0 by simp
  from push_rows_Inr [of "serializedCells m", OF serialized_row_Inr [OF assms] this h0] k0
  show ?thesis by (simp add: databaseMap_def Let_def)
qed

text \<open>
  Claim C7, as amended. When the input event fires, the trimmed text of the input is empty
  and no list-valued cell holds an undefined or null item, the handler sets the search
  state to \<open>Searching\<close> and then back to \<open>SearchInput\<close>, and it hands
  \<open>setFilteredRowIds\<close> the ids of all rows, in their order: every row matches the empty
  query, so no row is filtered out. The handler reads nothing of an earlier query.
\<close>

theorem empty_query_shows_all_rows:
  assumes "trim el_value = []" and "no_nullish_items (yCells m)"
  shows "onSearch el_value m =
     ([SetSearchState Searching, SetSearchState SearchInput,
       SetFilteredRowIds (map id' (children m))], None)"
proof -
  from databaseMap_Inr [OF assms(2)] obtain dm where dm: "databaseMap m = Inr dm"
    and keys: "fst ` set dm = id' ` set (children m)"
    and headed: "\<forall>(key, items) \<in> set dm. \<exists>s rest. items = JStr s # rest"
    by blast
  have ex: "existingRowIds [] dm = Inr (map fst dm)"
    by (rule existingRowIds_empty_query [OF headed])
  have "filter (\<lambda>child. id' child \<in> set (map fst dm)) (children m) = children m"
    using keys by (auto simp: filter_id_conv)
  with dm ex assms(1) show ?thesis
    by (simp add: onSearch_def Let_def)
qed

theorem empty_query_shows_all_rows_witness:
  "trim ''  '' = [] \<and>
   no_nullish_items (yCells (example_db [\<lparr>id' = ''r1'', text = Some ''Milk''\<rparr>, \<lparr>id' = ''r2'', text = None\<rparr>]
       [(''r1'', [(''c'', \<lparr>columnId = ''c'', value = JArr [JTag (SelectTag 1 ''A'')]\<rparr>)])])) \<and>
   onSearch ''  '' (example_db [\<lparr>id' = ''r1'', text = Some ''Milk''\<rparr>, \<lparr>id' = ''r2'', text = None\<rparr>]
       [(''r1'', [(''c'', \<lparr>columnId = ''c'', value = JArr [JTag (SelectTag 1 ''A'')]\<rparr>)])]) =
     ([SetSearchState Searching, SetSearchState SearchInput, SetFilteredRowIds [''r1'', ''r2'']],
      None)"
proof -
  have t: "trim ''  '' = []" by (simp add: trim_def is_space_def)
  have n: "no_nullish_items (yCells (example_db [\<lparr>id' = ''r1'', text = Some ''Milk''\<rparr>, \<lparr>id' = ''r2'', text = None\<rparr>]
       [(''r1'', [(''c'', \<lparr>columnId = ''c'', value = JArr [JTag (SelectTag 1 ''A'')]\<rparr>)])]))"
    by (simp add: no_nullish_items_def)
  from empty_query_shows_all_rows [OF t n] t n show ?thesis by simp
qed

text \<open>
  Claim C7 as stated does not hold: the handler does not clear the set of filtered row
  ids. With two rows it passes both ids to \<open>setFilteredRowIds\<close> and never the empty
  list, which only \<open>_resetSearchStatus\<close> passes.
\<close>

theorem empty_query_counterexample:
  "onSearch [] (example_db [\<lparr>id' = ''r1'', text = Some ''Milk''\<rparr>, \<lparr>id' = ''r2'', text = None\<rparr>]
       [(''r1'', [(''c'', \<lparr>columnId = ''c'', value = JArr [JTag (SelectTag 1 ''A'')]\<rparr>)])]) =
     ([SetSearchState Searching, SetSearchState SearchInput, SetFilteredRowIds [''r1'', ''r2'']],
      None) \<and>
   SetFilteredRowIds [] \<notin> set (fst (onSearch []
     (example_db [\<lparr>id' = ''r1'', text = Some ''Milk''\<rparr>, \<lparr>id' = ''r2'', text = None\<rparr>]
       [(''r1'', [(''c'', \<lparr>columnId = ''c'', value = JArr [JTag (SelectTag 1 ''A'')]\<rparr>)])]))) \<and>
   SetFilteredRowIds [] \<in> set resetSearchStatus"
  by (simp add: onSearch_def trim_def databaseMap_def serializedCells_def toLocaleLowerCase_def
      resetSearchStatus_def)

text \<open>
  Where a list-valued cell of a row holds a null item the getter throws, and the handler
  ends after it has set the search state, before it reaches \<open>setFilteredRowIds\<close>.
\<close>

lemma onSearch_null_item:
  "onSearch [] (example_db [\<lparr>id' = ''r1'', text = Some ''Milk''\<rparr>]
       [(''r1'', [(''c'', \<lparr>columnId = ''c'', value = JArr [JNull]\<rparr>)])]) =
     ([SetSearchState Searching, SetSearchState SearchInput], Some TypeError)"
  by (simp add: onSearch_def trim_def databaseMap_def serializedCells_def)

section \<open>Dropping dragged blocks\<close>

text \<open>
  Claim C8, as amended. When the drop has a target and a drop type other than \<open>none\<close>,
  exactly one model is dragged and it is in the same path as the target, the callback
  makes no call at all: no undo checkpoint, no move and no change of the selection.
\<close>

theorem self_drop_is_noop:
  assumes "type \<noteq> DropNone"
    and "map (getModelByBlockElement env) (getBlockElementsExcludeSubtrees env blockElements) = [dragged]"
    and "isInSamePath env (model state) dragged"
  shows "onDropCallback env point blockElements (Some state) type = ([], None)"
  using assms by (auto simp: onDropCallback_def drop_on_target_def Let_def split: list.splits)

theorem self_drop_is_noop_witness:
  "Before \<noteq> DropNone \<and>
   onDropCallback example_env (5, 5) [1] (Some \<lparr>model = \<lparr>id' = ''b1'', text = None\<rparr>\<rparr>) Before
     = ([], None)"
proof -
  have ty: "Before \<noteq> DropNone" by simp
  have one: "map (getModelByBlockElement example_env)
      (getBlockElementsExcludeSubtrees example_env [1]) = [\<lparr>id' = ''b1'', text = None\<rparr>]"
    by simp
  have same: "isInSamePath example_env
      (model \<lparr>model = \<lparr>id' = ''b1'', text = None\<rparr>\<rparr>) \<lparr>id' = ''b1'', text = None\<rparr>"
    by simp
  from self_drop_is_noop [OF ty one same, of "(5, 5)"] ty show ?thesis by simp
qed

text \<open>
  Claim C8 as stated does not hold: with the drop type \<open>none\<close> a single model in the
  path of the target is moved to a new frame, after an undo checkpoint.
\<close>

theorem self_drop_type_none_counterexample:
  "map (getModelByBlockElement example_env) (getBlockElementsExcludeSubtrees example_env [1])
     = [\<lparr>id' = ''b1'', text = None\<rparr>] \<and>
   isInSamePath example_env (model \<lparr>model = \<lparr>id' = ''b1'', text = None\<rparr>\<rparr>)
     \<lparr>id' = ''b1'', text = None\<rparr> \<and>
   onDropCallback example_env (5, 5) [1] (Some \<lparr>model = \<lparr>id' = ''b1'', text = None\<rparr>\<rparr>) DropNone
     = ([CaptureSync, MoveBlocksToNewFrame [\<lparr>id' = ''b1'', text = None\<rparr>] (5, 5) (0, 0, 10, 10)],
        None)"
  by (simp add: onDropCallback_def drop_on_blank_area_def)

text \<open>
  Claim C10. When blocks are dragged and the drop has a target but the drop type
  \<open>none\<close>, the callback records an undo checkpoint and moves the dragged models to a new
  frame at the drop point, with the rectangle of the first dragged element; it makes the
  same calls as a drop with no target, whatever the drop type.
\<close>

theorem drop_type_none_is_blank_area:
  assumes "getBlockElementsExcludeSubtrees env blockElements = first # rest"
  shows "onDropCallback env point blockElements (Some state) DropNone =
      ([CaptureSync,
        MoveBlocksToNewFrame (map (getModelByBlockElement env) (first # rest)) point
          (getRectByBlockElement env first)], None) \<and>
    onDropCallback env point blockElements (Some state) DropNone =
      onDropCallback env point blockElements None type"
  using assms by (simp add: onDropCallback_def drop_on_blank_area_def)

theorem drop_type_none_is_blank_area_witness:
  "getBlockElementsExcludeSubtrees example_env [1, 2] = [1, 2] \<and>
   onDropCallback example_env (5, 5) [1, 2] (Some \<lparr>model = \<lparr>id' = ''t1'', text = None\<rparr>\<rparr>) DropNone
     = ([CaptureSync,
         MoveBlocksToNewFrame [\<lparr>id' = ''b1'', text = None\<rparr>, \<lparr>id' = ''b1'', text = None\<rparr>]
           (5, 5) (0, 0, 10, 10)], None)"
proof -
  have els: "getBlockElementsExcludeSubtrees example_env [1, 2] = [1, 2]"
    by simp
  from drop_type_none_is_blank_area [OF els, of "(5, 5)"
      "\<lparr>model = \<lparr>id' = ''t1'', text = None\<rparr>\<rparr>" Before] els
  show ?thesis by simp
qed

end
